theory Spec2Isabelle
  imports Complex_Main "HOL-Library.Word"
begin

section \<open>Numeric types of the engine\<close>

text \<open>
  The engine computes with C++ \<^verbatim>\<open>double\<close> and \<^verbatim>\<open>float\<close>. Both are modelled by the
  real numbers: every finite floating-point number is a real number, the comparisons of
  the code are the comparisons of the reals on them, and a copy is the identity; the
  arithmetic operations are the exact ones, so rounding, infinities and NaN are outside
  the model. The integer fields keep their widths: \<^verbatim>\<open>uint8_t\<close>, \<^verbatim>\<open>uint16_t\<close>,
  \<^verbatim>\<open>uint32_t\<close> and \<^verbatim>\<open>uint64_t\<close> are words whose addition wraps around, \<^verbatim>\<open>int16_t\<close> is
  a 16-bit word read through \<open>sint\<close>, and \<^verbatim>\<open>size_t\<close> indices are natural numbers.
\<close>

type_synonym double = real
type_synonym float = real

text \<open>
  \<^verbatim>\<open>static_cast<uint32_t>(d)\<close> and \<^verbatim>\<open>static_cast<uint8_t>(d)\<close> drop the fractional part
  (towards zero). C++ defines the result only when the integer part fits the target type,
  that is for \<open>-1 < d < 2\<^sup>3\<^sup>2\<close> and for \<open>-1 < d < 2\<^sup>8\<close>. For the other numbers the model
  takes what the conversion compiled for x86-64 returns (the build instructions in the
  source name that target, \<^verbatim>\<open>/favor:AMD64\<close>): the instruction \<^verbatim>\<open>cvttsd2si\<close> converts to
  a signed integer, of 64 bits for \<^verbatim>\<open>uint32_t\<close> and of 32 bits for \<^verbatim>\<open>uint8_t\<close>, and the
  low 32 or 8 bits of that integer are the result; when the integer part does not fit the
  signed integer, the instruction returns the integer whose only set bit is the sign
  bit, and the low bits of that are zero.
\<close>

definition trunc :: "double \<Rightarrow> int" where
  "trunc d = (if 0 \<le> d then \<lfloor>d\<rfloor> else \<lceil>d\<rceil>)"

definition u32_of_double :: "double \<Rightarrow> 32 word" where
  "u32_of_double d =
     (if - 9223372036854775809 < d \<and> d < 9223372036854775808
      then word_of_int (trunc d) else 0)"

definition u8_of_double :: "double \<Rightarrow> 8 word" where
  "u8_of_double d =
     (if - 2147483649 < d \<and> d < 2147483648
      then word_of_int (trunc d) else 0)"

definition double_of_u32 :: "32 word \<Rightarrow> double" where
  "double_of_u32 w = real (unat w)"

definition double_of_u8 :: "8 word \<Rightarrow> double" where
  "double_of_u8 w = real (unat w)"

definition sinf :: "float \<Rightarrow> float" where
  "sinf a = sin a"

section \<open>The discrete node: universal\_node\_engine.cpp\<close>

datatype NodeType = WORKER | COMM | VECTOR | PROCESSOR | MARKOV | KERNEL

datatype Priority = LOW | NORMAL | HIGH | CRITICAL

record WorkerData =
  gain :: double
  accumulator :: double
  previous_value :: double

record CommData =
  message_count :: "32 word"
  routing_table :: "8 word list"

record VectorData =
  vec_data :: "float list"
  threshold :: float

record ProcessorData =
  registers :: "32 word list"
  pc :: "16 word"

record MarkovData =
  state :: "8 word"
  transitions :: "float list"

record KernelData =
  influence :: double
  decay :: double

text \<open>The default member initialisers of the six structs, \<^verbatim>\<open>WorkerData()\<close> and so on.\<close>

definition new_WorkerData :: WorkerData where
  "new_WorkerData = \<lparr>gain = 1, accumulator = 0, previous_value = 0\<rparr>"

definition new_CommData :: CommData where
  "new_CommData = \<lparr>message_count = 0, routing_table = replicate 6 0\<rparr>"

definition new_VectorData :: VectorData where
  "new_VectorData = \<lparr>vec_data = replicate 8 0, threshold = 0.8\<rparr>"

definition new_ProcessorData :: ProcessorData where
  "new_ProcessorData = \<lparr>registers = replicate 4 0, pc = 0\<rparr>"

definition new_MarkovData :: MarkovData where
  "new_MarkovData = \<lparr>state = 0, transitions = replicate 4 0.25\<rparr>"

definition new_KernelData :: KernelData where
  "new_KernelData = \<lparr>influence = 1, decay = 0.9\<rparr>"

text \<open>
  \<^verbatim>\<open>union FunctionData\<close>: one member is active at a time. The selectors \<open>worker\<close>,
  \<open>comm\<close>, ... read a member as \<^verbatim>\<open>data.worker\<close>, \<^verbatim>\<open>data.comm\<close>, ... do; reading a
  member that is not the active one is unspecified here, as it is undefined in C++.
\<close>

datatype FunctionData =
    Worker (worker: WorkerData)
  | Comm (comm: CommData)
  | Vector (vector: VectorData)
  | Processor (processor: ProcessorData)
  | Markov (markov: MarkovData)
  | Kernel (kernel: KernelData)

record UniversalNode =
  current_type :: NodeType
  node_value :: double
  priority :: Priority
  data :: FunctionData
  node_x :: "16 word"
  node_y :: "16 word"
  node_z :: "16 word"
  node_id :: "16 word"
  switch_count :: "64 word"
  execution_count :: "64 word"

definition new_UniversalNode :: "16 word \<Rightarrow> 16 word \<Rightarrow> 16 word \<Rightarrow> 16 word \<Rightarrow> UniversalNode" where
  "new_UniversalNode ident px py pz =
     \<lparr>current_type = WORKER, node_value = 0, priority = NORMAL,
      data = Worker new_WorkerData,
      node_x = px, node_y = py, node_z = pz, node_id = ident,
      switch_count = 0, execution_count = 0\<rparr>"

text \<open>
  \<^verbatim>\<open>switchToType\<close>. Each case clears the union (\<^verbatim>\<open>memset\<close>), assigns the
  default-constructed struct of the new type, and then writes the fields seeded from the
  node. The cleared bytes are all overwritten by the assigned struct, so the model starts
  each case from that struct.
\<close>

definition switchToType :: "NodeType \<Rightarrow> UniversalNode \<Rightarrow> bool \<times> UniversalNode" where
  "switchToType new_type n =
     (if current_type n = new_type then (False, n)
      else
        let current_val = node_value n;
            n = n\<lparr>current_type := new_type\<rparr>;
            n = n\<lparr>switch_count := switch_count n + 1\<rparr>
        in (True,
            case new_type of
              WORKER \<Rightarrow>
                n\<lparr>data := Worker (new_WorkerData\<lparr>accumulator := current_val\<rparr>)\<rparr>
            | COMM \<Rightarrow>
                n\<lparr>data := Comm new_CommData\<rparr>
            | VECTOR \<Rightarrow>
                n\<lparr>data := Vector (new_VectorData
                   \<lparr>vec_data :=
                      fold (\<lambda>i d. d[i := sinf (real_of_int
                              (sint (node_x n) + sint (node_y n) + sint (node_z n) + int i) * 0.1)])
                        [0..<8] (vec_data new_VectorData)\<rparr>)\<rparr>
            | PROCESSOR \<Rightarrow>
                n\<lparr>data := Processor (new_ProcessorData
                   \<lparr>registers := (registers new_ProcessorData)[0 := u32_of_double current_val]\<rparr>)\<rparr>
            | MARKOV \<Rightarrow>
                n\<lparr>data := Markov (new_MarkovData
                   \<lparr>state := word_of_nat (unat (u8_of_double current_val) mod 4)\<rparr>)\<rparr>
            | KERNEL \<Rightarrow>
                n\<lparr>data := Kernel (new_KernelData\<lparr>influence := current_val\<rparr>)\<rparr>))"

text \<open>
  \<^verbatim>\<open>execute\<close>. The loop of the VECTOR case runs over the eight components in order and
  adds \<^verbatim>\<open>data.vector.data[i] * input_f\<close> to \<^verbatim>\<open>similarity\<close>; the casts between
  \<^verbatim>\<open>double\<close> and \<^verbatim>\<open>float\<close> are the identity of the model. In the MARKOV case the
  two \<^verbatim>\<open>uint8_t\<close> operands are promoted to \<^verbatim>\<open>int\<close> before they are added.
\<close>

definition execute :: "double \<Rightarrow> UniversalNode \<Rightarrow> double \<times> UniversalNode" where
  "execute input n =
     (let (result, d) =
        (case current_type n of
           WORKER \<Rightarrow>
             let w = worker (data n);
                 result = input * gain w;
                 w = w\<lparr>accumulator := accumulator w + result * 0.01\<rparr>;
                 result = result + accumulator w
             in (result, Worker w)
         | COMM \<Rightarrow>
             let c = comm (data n);
                 c = c\<lparr>message_count := message_count c + 1\<rparr>;
                 result = input + double_of_u32 (message_count c) * 0.01
             in (result, Comm c)
         | VECTOR \<Rightarrow>
             let input_f = input;
                 similarity = fold (\<lambda>i s. s + vec_data (vector (data n)) ! i * input_f) [0..<8] 0
             in (similarity, data n)
         | PROCESSOR \<Rightarrow>
             let p = processor (data n);
                 p = p\<lparr>registers := (registers p)[1 := registers p ! 0 + u32_of_double input]\<rparr>;
                 p = p\<lparr>pc := pc p + 1\<rparr>;
                 result = double_of_u32 (registers p ! 1)
             in (result, Processor p)
         | MARKOV \<Rightarrow>
             let m = markov (data n);
                 new_state = (word_of_nat ((unat (u8_of_double (input * 4)) + unat (state m)) mod 4) :: 8 word);
                 m = m\<lparr>state := new_state\<rparr>;
                 result = double_of_u8 new_state + input
             in (result, Markov m)
         | KERNEL \<Rightarrow>
             let k = kernel (data n);
                 k = k\<lparr>influence := influence k * decay k\<rparr>;
                 result = influence k + input
             in (result, Kernel k))
      in (result, n\<lparr>data := d, node_value := result,
                      execution_count := execution_count n + 1\<rparr>))"

text \<open>
  The active union member agrees with \<^verbatim>\<open>current_type\<close>, and the fixed-size arrays have
  their declared lengths. The constructor establishes this and both operations keep it.
\<close>

definition wf_node :: "UniversalNode \<Rightarrow> bool" where
  "wf_node n =
     (case data n of
        Worker w \<Rightarrow> current_type n = WORKER
      | Comm c \<Rightarrow> current_type n = COMM \<and> length (routing_table c) = 6
      | Vector v \<Rightarrow> current_type n = VECTOR \<and> length (vec_data v) = 8
      | Processor p \<Rightarrow> current_type n = PROCESSOR \<and> length (registers p) = 4
      | Markov m \<Rightarrow> current_type n = MARKOV \<and> length (transitions m) = 4
      | Kernel k \<Rightarrow> current_type n = KERNEL)"

section \<open>The engine\<close>

record UniversalNodeEngine =
  nodes :: "UniversalNode list"
  active_nodes :: nat

definition new_UniversalNodeEngine :: UniversalNodeEngine where
  "new_UniversalNodeEngine = \<lparr>nodes = [], active_nodes = 0\<rparr>"

text \<open>\<^verbatim>\<open>initialize\<close>: the message printed to the console is not modelled.\<close>

definition initialize :: "nat \<Rightarrow> UniversalNodeEngine \<Rightarrow> UniversalNodeEngine" where
  "initialize node_count e =
     (let ns = fold (\<lambda>i ns.
                   let px = (word_of_nat (i mod 10) :: 16 word);
                       py = (word_of_nat ((i div 10) mod 10) :: 16 word);
                       pz = (word_of_nat (i div 100) :: 16 word)
                   in ns @ [new_UniversalNode (word_of_nat i) px py pz])
                [0..<node_count] []
      in e\<lparr>nodes := ns, active_nodes := node_count\<rparr>)"

definition executeWave :: "double \<Rightarrow> UniversalNodeEngine \<Rightarrow> double \<times> UniversalNodeEngine" where
  "executeWave base_input e =
     (if nodes e = [] then (0, e)
      else
        let (ns, total_output) =
              fold (\<lambda>i (ns, total_output).
                      let node_input = base_input + real i * 0.1;
                          (output, n') = execute node_input (ns ! i)
                      in (ns[i := n'], total_output + output))
                [0..<length (nodes e)] (nodes e, 0)
        in (total_output / real (length ns), e\<lparr>nodes := ns\<rparr>))"

definition types :: "NodeType list" where
  "types = [WORKER, COMM, VECTOR, PROCESSOR, MARKOV, KERNEL]"

definition performRoleSwitching :: "UniversalNodeEngine \<Rightarrow> UniversalNodeEngine" where
  "performRoleSwitching e =
     (if nodes e = [] then e
      else
        e\<lparr>nodes :=
            fold (\<lambda>i ns.
                    let target_type = types ! (i mod 6)
                    in ns[i := snd (switchToType target_type (ns ! i))])
              [0..<length (nodes e)] (nodes e)\<rparr>)"

text \<open>
  \<^verbatim>\<open>getNode\<close> returns a pointer to the node, or \<^verbatim>\<open>nullptr\<close>; the model returns the
  node the pointer refers to, or \<open>None\<close>.
\<close>

definition getNode :: "UniversalNodeEngine \<Rightarrow> nat \<Rightarrow> UniversalNode option" where
  "getNode e index = (if index < length (nodes e) then Some (nodes e ! index) else None)"

section \<open>The signal-controlled node: analog\_universal\_node\_engine\<close>

record AnalogUniversalNode =
  current_output :: double
  integrator_state :: double
  previous_input :: double
  feedback_gain :: double
  analog_x :: "16 word"
  analog_y :: "16 word"
  analog_z :: "16 word"
  analog_node_id :: "16 word"
  operation_count :: "64 word"

definition processSignal ::
  "double \<Rightarrow> double \<Rightarrow> double \<Rightarrow> AnalogUniversalNode \<Rightarrow> double \<times> AnalogUniversalNode" where
  "processSignal input_signal control_signal aux_signal n =
     (let n = n\<lparr>operation_count := operation_count n + 1\<rparr>;
          (result, n) =
            (if control_signal > 0.5 then
               let n = n\<lparr>integrator_state := integrator_state n + input_signal * 0.1\<rparr>
               in (integrator_state n * feedback_gain n, n)
             else if control_signal < - 0.5 then
               let derivative = input_signal - previous_input n;
                   n = n\<lparr>previous_input := input_signal\<rparr>
               in (derivative * feedback_gain n, n)
             else if control_signal > 0 then
               (input_signal * (1 + control_signal) * feedback_gain n, n)
             else
               (- input_signal * (1 + \<bar>control_signal\<bar>) * feedback_gain n, n))
      in (result, n\<lparr>current_output := result\<rparr>))"

text \<open>The default member initialisers of \<^verbatim>\<open>class AnalogUniversalNode\<close>.\<close>

definition new_AnalogUniversalNode :: AnalogUniversalNode where
  "new_AnalogUniversalNode =
     \<lparr>current_output = 0, integrator_state = 0, previous_input = 0, feedback_gain = 1,
      analog_x = 0, analog_y = 0, analog_z = 0, analog_node_id = 0, operation_count = 0\<rparr>"

section \<open>The specification's vocabulary\<close>

text \<open>
  The specification describes the output of a VectorStore unit as
  \<open>dot(embedding, broadcast(input))\<close>: the input is broadcast into a uniform vector of
  eight components and the result is the dot product of the embedding with it. These two
  definitions follow that wording; the loop of \<^verbatim>\<open>execute\<close> is compared with them below.
\<close>

definition spec_broadcast :: "float \<Rightarrow> float list" where
  "spec_broadcast v = replicate 8 v"

definition spec_dot :: "float list \<Rightarrow> float list \<Rightarrow> float" where
  "spec_dot xs ys = sum_list (map2 (*) xs ys)"

section \<open>Loops over the indices of an array\<close>

text \<open>
  A loop \<^verbatim>\<open>for (i = 0; i < k; i++) a[i] = g(i, a[i])\<close> rewrites the first \<open>k\<close> cells, each
  from its own old content, and leaves the others.
\<close>

lemma fold_index_update:
  "k \<le> length xs \<Longrightarrow>
   fold (\<lambda>i ns. ns[i := g i (ns ! i)]) [0..<k] xs
     = map (\<lambda>i. g i (xs ! i)) [0..<k] @ drop k xs"
proof (induction k)
  case 0
  then show ?case by simp
next
  case (Suc k)
  then have k: "k < length xs" by simp
  let ?pre = "map (\<lambda>i. g i (xs ! i)) [0..<k]"
  have d: "drop k xs = xs ! k # drop (Suc k) xs"
    using k by (simp add: Cons_nth_drop_Suc)
  have "fold (\<lambda>i ns. ns[i := g i (ns ! i)]) [0..<Suc k] xs
          = (?pre @ drop k xs)[k := g k ((?pre @ drop k xs) ! k)]"
    using Suc by simp
  also have "\<dots> = ?pre @ g k (xs ! k) # drop (Suc k) xs"
    by (simp add: d nth_append list_update_append)
  finally show ?case by simp
qed

lemma fold_vec_data:
  "fold (\<lambda>i d. d[i := f i]) [0..<8] (replicate 8 z) = map f [0..<8]"
  using fold_index_update [of 8 "replicate 8 z" "\<lambda>i _. f i"]
  by simp

lemma replicate_4: "replicate 4 x = [x, x, x, x]"
  by (simp add: numeral_eq_Suc)

lemma replicate_6: "replicate 6 x = [x, x, x, x, x, x]"
  by (simp add: numeral_eq_Suc)

lemma replicate_8: "replicate 8 x = [x, x, x, x, x, x, x, x]"
  by (simp add: numeral_eq_Suc)

lemma upt_4: "[0..<4] = [0, 1, 2, 3]"
  by (simp add: upt_rec)

lemma upt_8: "[0..<8] = [0, 1, 2, 3, 4, 5, 6, 7]"
  by (simp add: upt_rec)

section \<open>Conversions\<close>

lemma trunc_bounds:
  assumes "- 1 < d" and "d < real_of_int N" and "0 < N"
  shows "0 \<le> trunc d" and "trunc d < N"
proof -
  show "0 \<le> trunc d"
    using assms(1) by (simp add: trunc_def)
  show "trunc d < N"
  proof (cases "0 \<le> d")
    case True
    then show ?thesis using assms(2) by (simp add: trunc_def floor_less_iff)
  next
    case False
    then have "\<lceil>d\<rceil> \<le> 0" by (simp add: ceiling_le_iff)
    then have "\<lceil>d\<rceil> < N" using assms(3) by linarith
    then show ?thesis using False by (simp add: trunc_def)
  qed
qed




lemma u32_of_double_in_range:
  assumes "- 1 < d" and "d < 4294967296"
  shows "u32_of_double d = word_of_int (trunc d)" and "unat (u32_of_double d) = nat (trunc d)"
proof -
  have t: "0 \<le> trunc d" "trunc d < 4294967296"
    using trunc_bounds [of d 4294967296] assms by simp_all
  show w: "u32_of_double d = word_of_int (trunc d)"
    using assms by (simp add: u32_of_double_def)
  have "unat (u32_of_double d) = nat (take_bit 32 (trunc d))"
    by (simp add: w unsigned_of_int)
  also have "take_bit 32 (trunc d) = trunc d"
    using t by (simp add: take_bit_int_eq_self)
  finally show "unat (u32_of_double d) = nat (trunc d)" .
qed

lemma u8_of_double_in_range:
  assumes "- 1 < d" and "d < 256"
  shows "u8_of_double d = word_of_int (trunc d)" and "unat (u8_of_double d) = nat (trunc d)"
proof -
  have t: "0 \<le> trunc d" "trunc d < 256"
    using trunc_bounds [of d 256] assms by simp_all
  show w: "u8_of_double d = word_of_int (trunc d)"
    using assms by (simp add: u8_of_double_def)
  have "unat (u8_of_double d) = nat (take_bit 8 (trunc d))"
    by (simp add: w unsigned_of_int)
  also have "take_bit 8 (trunc d) = trunc d"
    using t by (simp add: take_bit_int_eq_self)
  finally show "unat (u8_of_double d) = nat (trunc d)" .
qed


lemma unat_mod_4_word8: "unat (word_of_nat (k mod 4) :: 8 word) = k mod 4"
proof -
  have "k mod 4 < 2 ^ 8" by (rule less_trans [of _ 4]) simp_all
  then show ?thesis by (simp add: unat_of_nat take_bit_nat_eq_self)
qed

section \<open>The invariant of a node\<close>

lemma wf_node_new: "wf_node (new_UniversalNode i px py pz)"
  by (simp add: wf_node_def new_UniversalNode_def)

lemma wf_node_switchToType:
  assumes "wf_node n"
  shows "wf_node (snd (switchToType t n))"
proof (cases "current_type n = t")
  case True
  with assms show ?thesis by (simp add: switchToType_def)
next
  case False
  then show ?thesis
    by (cases t)
       (simp_all add: switchToType_def Let_def wf_node_def fold_vec_data
          new_CommData_def new_VectorData_def new_ProcessorData_def new_MarkovData_def)
qed

lemma wf_node_execute: "wf_node n \<Longrightarrow> wf_node (snd (execute input n))"
  by (cases "current_type n"; cases "data n")
     (simp_all add: execute_def Let_def wf_node_def)


section \<open>Freshly initialised engines\<close>

lemma initialize_4:
  "nodes (initialize 4 new_UniversalNodeEngine) =
     [new_UniversalNode 0 0 0 0, new_UniversalNode 1 1 0 0,
      new_UniversalNode 2 2 0 0, new_UniversalNode 3 3 0 0]"
  by (simp add: initialize_def upt_4)

lemma execute_new_UniversalNode:
  "execute input (new_UniversalNode i px py pz) =
     (input + input * 0.01,
      (new_UniversalNode i px py pz)
        \<lparr>data := Worker \<lparr>gain = 1, accumulator = input * 0.01, previous_value = 0\<rparr>,
         node_value := input + input * 0.01, execution_count := 1\<rparr>)"
  by (simp add: execute_def new_UniversalNode_def new_WorkerData_def Let_def)

section \<open>Switching roles\<close>

lemma switchToType_same: "current_type n = t \<Longrightarrow> switchToType t n = (False, n)"
  by (simp add: switchToType_def)

lemma current_type_switchToType: "current_type (snd (switchToType t n)) = t"
  by (cases t) (simp_all add: switchToType_def Let_def)

text \<open>
  C3. Calling \<^verbatim>\<open>switchToType\<close> with the node's current type returns false and leaves the
  node as it was: its type-specific data, its switch count and every other field.
\<close>

theorem switchToType_same_type_noop:
  "switchToType (current_type n) n = (False, n)"
  by (simp add: switchToType_def)

text \<open>
  C1, as the specification states it: the new block is zero-initialised and then seeded
  from the captured output, so a field that is not seeded would be zero. The code
  assigns the default-constructed struct after clearing the union, and the defaults are
  not all zero: a node switched to KERNEL has \<open>decay = 0.9\<close>, and one switched to WORKER
  has \<open>gain = 1\<close>.
\<close>

theorem switchToType_zero_block_counterexample:
  "current_type ((new_UniversalNode 7 1 2 3)\<lparr>node_value := 2.5\<rparr>) \<noteq> KERNEL
   \<and> data (snd (switchToType KERNEL ((new_UniversalNode 7 1 2 3)\<lparr>node_value := 2.5\<rparr>)))
       \<noteq> Kernel \<lparr>influence = 2.5, decay = 0\<rparr>
   \<and> decay (kernel (data (snd (switchToType KERNEL
         ((new_UniversalNode 7 1 2 3)\<lparr>node_value := 2.5\<rparr>))))) \<noteq> 0"
  by (simp add: switchToType_def new_UniversalNode_def Let_def new_KernelData_def)

text \<open>
  C1, amended. Switching a node to a type other than its current one returns true. The
  node that results is the old one with three fields replaced: the type tag is the new
  type, the switch count is one more, and the type-specific data is the cleared and
  default-constructed block of the new type (all fields zero but \<open>gain = 1\<close>,
  \<open>threshold = 0.8\<close>, \<open>transitions = 0.25\<close> and \<open>decay = 0.9\<close>) with the seeded fields
  written: the captured output is the accumulator of a WORKER and the influence of a
  KERNEL; converted to \<^verbatim>\<open>uint32_t\<close> it is register 0 of a PROCESSOR, which is its integer
  part when the output lies between -1 and \<open>2\<^sup>3\<^sup>2\<close>; converted to \<^verbatim>\<open>uint8_t\<close> and reduced
  modulo 4 it is the state of a MARKOV node, which is its integer part modulo 4 when the
  output lies between -1 and 256; and a VECTOR is seeded from the coordinates. The output
  itself and all remaining fields carry over. Nothing of the old data survives: the
  result is the same whatever the old data \<open>d\<close> was.
\<close>

theorem switchToType_changed:
  assumes "current_type n \<noteq> new_type"
  shows "switchToType new_type n =
           (True,
            n\<lparr>current_type := new_type,
              switch_count := switch_count n + 1,
              data :=
                (case new_type of
                   WORKER \<Rightarrow>
                     Worker \<lparr>gain = 1, accumulator = node_value n, previous_value = 0\<rparr>
                 | COMM \<Rightarrow>
                     Comm \<lparr>message_count = 0, routing_table = [0, 0, 0, 0, 0, 0]\<rparr>
                 | VECTOR \<Rightarrow>
                     Vector \<lparr>vec_data =
                         map (\<lambda>i. sinf (real_of_int
                                (sint (node_x n) + sint (node_y n) + sint (node_z n) + int i) * 0.1))
                           [0..<8],
                       threshold = 0.8\<rparr>
                 | PROCESSOR \<Rightarrow>
                     Processor \<lparr>registers = [u32_of_double (node_value n), 0, 0, 0], pc = 0\<rparr>
                 | MARKOV \<Rightarrow>
                     Markov \<lparr>state = word_of_nat (unat (u8_of_double (node_value n)) mod 4),
                       transitions = [0.25, 0.25, 0.25, 0.25]\<rparr>
                 | KERNEL \<Rightarrow>
                     Kernel \<lparr>influence = node_value n, decay = 0.9\<rparr>)\<rparr>)
       \<and> data (snd (switchToType new_type (n\<lparr>data := d\<rparr>)))
           = data (snd (switchToType new_type n))
       \<and> (- 1 < node_value n \<and> node_value n < 4294967296 \<longrightarrow>
            unat (u32_of_double (node_value n)) = nat (trunc (node_value n)))
       \<and> (- 1 < node_value n \<and> node_value n < 256 \<longrightarrow>
            unat (word_of_nat (unat (u8_of_double (node_value n)) mod 4) :: 8 word)
              = nat (trunc (node_value n)) mod 4)"
proof -
  have a: "switchToType new_type n =
           (True,
            n\<lparr>current_type := new_type,
              switch_count := switch_count n + 1,
              data :=
                (case new_type of
                   WORKER \<Rightarrow>
                     Worker \<lparr>gain = 1, accumulator = node_value n, previous_value = 0\<rparr>
                 | COMM \<Rightarrow>
                     Comm \<lparr>message_count = 0, routing_table = [0, 0, 0, 0, 0, 0]\<rparr>
                 | VECTOR \<Rightarrow>
                     Vector \<lparr>vec_data =
                         map (\<lambda>i. sinf (real_of_int
                                (sint (node_x n) + sint (node_y n) + sint (node_z n) + int i) * 0.1))
                           [0..<8],
                       threshold = 0.8\<rparr>
                 | PROCESSOR \<Rightarrow>
                     Processor \<lparr>registers = [u32_of_double (node_value n), 0, 0, 0], pc = 0\<rparr>
                 | MARKOV \<Rightarrow>
                     Markov \<lparr>state = word_of_nat (unat (u8_of_double (node_value n)) mod 4),
                       transitions = [0.25, 0.25, 0.25, 0.25]\<rparr>
                 | KERNEL \<Rightarrow>
                     Kernel \<lparr>influence = node_value n, decay = 0.9\<rparr>)\<rparr>)"
    using assms
    by (cases new_type)
       (simp_all add: switchToType_def Let_def fold_vec_data
          new_WorkerData_def new_CommData_def new_VectorData_def new_ProcessorData_def
          new_MarkovData_def new_KernelData_def replicate_4 replicate_6)
  have b: "data (snd (switchToType new_type (n\<lparr>data := d\<rparr>)))
             = data (snd (switchToType new_type n))"
    using assms
    by (cases new_type)
       (simp_all add: switchToType_def Let_def)
  have c: "- 1 < node_value n \<and> node_value n < 4294967296 \<longrightarrow>
            unat (u32_of_double (node_value n)) = nat (trunc (node_value n))"
    by (simp add: u32_of_double_in_range(2))
  have d: "- 1 < node_value n \<and> node_value n < 256 \<longrightarrow>
            unat (word_of_nat (unat (u8_of_double (node_value n)) mod 4) :: 8 word)
              = nat (trunc (node_value n)) mod 4"
    by (simp add: unat_mod_4_word8 u8_of_double_in_range(2))
  from a b c d show ?thesis by blast
qed

text \<open>
  Three switches of a node whose output is 2.5: to KERNEL, to PROCESSOR (register 0
  becomes 2) and to MARKOV (the state becomes 2).
\<close>

theorem switchToType_changed_witness:
  "current_type ((new_UniversalNode 7 1 2 3)\<lparr>node_value := 2.5\<rparr>) \<noteq> KERNEL
   \<and> switchToType KERNEL ((new_UniversalNode 7 1 2 3)\<lparr>node_value := 2.5\<rparr>) =
       (True,
        \<lparr>current_type = KERNEL, node_value = 2.5, priority = NORMAL,
         data = Kernel \<lparr>influence = 2.5, decay = 0.9\<rparr>,
         node_x = 1, node_y = 2, node_z = 3, node_id = 7,
         switch_count = 1, execution_count = 0\<rparr>)
   \<and> current_type ((new_UniversalNode 7 1 2 3)\<lparr>node_value := 2.5\<rparr>) \<noteq> PROCESSOR
   \<and> (- 1 :: real) < 2.5 \<and> (2.5 :: real) < 4294967296
   \<and> data (snd (switchToType PROCESSOR ((new_UniversalNode 7 1 2 3)\<lparr>node_value := 2.5\<rparr>)))
       = Processor \<lparr>registers = [2, 0, 0, 0], pc = 0\<rparr>
   \<and> current_type ((new_UniversalNode 7 1 2 3)\<lparr>node_value := 2.5\<rparr>) \<noteq> MARKOV
   \<and> (2.5 :: real) < 256
   \<and> data (snd (switchToType MARKOV ((new_UniversalNode 7 1 2 3)\<lparr>node_value := 2.5\<rparr>)))
       = Markov \<lparr>state = 2, transitions = [0.25, 0.25, 0.25, 0.25]\<rparr>"
proof -
  let ?n = "(new_UniversalNode 7 1 2 3)\<lparr>node_value := 2.5\<rparr>"
  have hk: "current_type ?n \<noteq> KERNEL"
    by (simp add: new_UniversalNode_def)
  have hp: "current_type ?n \<noteq> PROCESSOR"
    by (simp add: new_UniversalNode_def)
  have hm: "current_type ?n \<noteq> MARKOV"
    by (simp add: new_UniversalNode_def)
  have u32: "u32_of_double (5 / 2) = 2"
    by (simp add: u32_of_double_def trunc_def)
  have u8: "u8_of_double (5 / 2) = 2"
    by (simp add: u8_of_double_def trunc_def)
  show ?thesis
    using hk hp hm switchToType_changed [OF hk] switchToType_changed [OF hp]
      switchToType_changed [OF hm]
    by (simp add: new_UniversalNode_def u32 u8)
qed

text \<open>
  C2. When a node whose type is not WORKER is switched to WORKER, the accumulator of its
  new data is the node's last output, copied as it is; the node is then a WORKER.
\<close>

theorem switchToType_WORKER_accumulator:
  assumes "current_type n \<noteq> WORKER"
  shows "accumulator (worker (data (snd (switchToType WORKER n)))) = node_value n
       \<and> current_type (snd (switchToType WORKER n)) = WORKER
       \<and> (\<exists>w. data (snd (switchToType WORKER n)) = Worker w)"
  using assms
  by (simp add: switchToType_def Let_def new_WorkerData_def)

theorem switchToType_WORKER_accumulator_witness:
  "current_type (snd (switchToType KERNEL ((new_UniversalNode 0 0 0 0)\<lparr>node_value := 42\<rparr>)))
     \<noteq> WORKER
   \<and> accumulator (worker (data (snd (switchToType WORKER
        (snd (switchToType KERNEL ((new_UniversalNode 0 0 0 0)\<lparr>node_value := 42\<rparr>)))))))
     = 42"
proof -
  let ?n = "snd (switchToType KERNEL ((new_UniversalNode 0 0 0 0)\<lparr>node_value := 42\<rparr>))"
  have h: "current_type ?n \<noteq> WORKER"
    by (simp add: switchToType_def new_UniversalNode_def Let_def)
  have v: "node_value ?n = 42"
    by (simp add: switchToType_def new_UniversalNode_def Let_def)
  show ?thesis
    using h v switchToType_WORKER_accumulator [OF h]
    by simp
qed

section \<open>The role sweep\<close>

lemma performRoleSwitching_nodes:
  "nodes (performRoleSwitching e) =
     map (\<lambda>i. snd (switchToType (types ! (i mod 6)) (nodes e ! i))) [0..<length (nodes e)]"
  using fold_index_update
          [of "length (nodes e)" "nodes e" "\<lambda>i n. snd (switchToType (types ! (i mod 6)) n)"]
  by (simp add: performRoleSwitching_def)

text \<open>
  C8. The sweep is idempotent. After one \<^verbatim>\<open>performRoleSwitching\<close> the node at index \<open>i\<close>
  has the type \<^verbatim>\<open>types[i % 6]\<close>; a second sweep asks every node for the type it already
  has, so it changes no node: not its type and not any other field.
\<close>

theorem performRoleSwitching_idempotent:
  "performRoleSwitching (performRoleSwitching e) = performRoleSwitching e
   \<and> map current_type (nodes (performRoleSwitching e))
       = map (\<lambda>i. types ! (i mod 6)) [0..<length (nodes e)]"
proof -
  let ?e = "performRoleSwitching e"
  have len: "length (nodes ?e) = length (nodes e)"
    by (simp add: performRoleSwitching_nodes)
  have ty: "current_type (nodes ?e ! i) = types ! (i mod 6)" if "i < length (nodes e)" for i
    using that by (simp add: performRoleSwitching_nodes current_type_switchToType)
  have "nodes (performRoleSwitching ?e) = map (\<lambda>i. nodes ?e ! i) [0..<length (nodes ?e)]"
    unfolding performRoleSwitching_nodes [of ?e]
  proof (rule map_cong [OF refl])
    fix i assume "i \<in> set [0..<length (nodes ?e)]"
    then have "i < length (nodes e)" using len by simp
    then have "current_type (nodes ?e ! i) = types ! (i mod 6)" using ty by simp
    then show "snd (switchToType (types ! (i mod 6)) (nodes ?e ! i)) = nodes ?e ! i"
      by (simp add: switchToType_same)
  qed
  then have "nodes (performRoleSwitching ?e) = nodes ?e"
    by (simp add: map_nth)
  moreover have "performRoleSwitching ?e = ?e\<lparr>nodes := nodes (performRoleSwitching ?e)\<rparr>"
    by (simp add: performRoleSwitching_def)
  ultimately have "performRoleSwitching ?e = ?e" by simp
  moreover have "map current_type (nodes ?e) = map (\<lambda>i. types ! (i mod 6)) [0..<length (nodes e)]"
    by (simp add: performRoleSwitching_nodes current_type_switchToType)
  ultimately show ?thesis by simp
qed

section \<open>Access to a node\<close>

text \<open>
  C7. On an engine of \<open>N\<close> nodes, \<^verbatim>\<open>getNode\<close> with an index \<open>i \<ge> N\<close> returns the null
  pointer and reads no node; with \<open>i < N\<close> it returns the node at index \<open>i\<close>.
\<close>

theorem getNode_bounds:
  "(length (nodes e) \<le> i \<longrightarrow> getNode e i = None)
   \<and> (i < length (nodes e) \<longrightarrow> getNode e i = Some (nodes e ! i))"
  by (simp add: getNode_def)

theorem getNode_bounds_witness:
  "(length (nodes (initialize 4 new_UniversalNodeEngine)) \<le> 4
      \<and> getNode (initialize 4 new_UniversalNodeEngine) 4 = None)
   \<and> (2 < length (nodes (initialize 4 new_UniversalNodeEngine))
      \<and> getNode (initialize 4 new_UniversalNodeEngine) 2 = Some (new_UniversalNode 2 2 0 0))"
  using getNode_bounds [of "initialize 4 new_UniversalNodeEngine" 4]
        getNode_bounds [of "initialize 4 new_UniversalNodeEngine" 2]
  by (simp add: initialize_4)

section \<open>Waves\<close>

text \<open>
  C6. On an engine initialised with zero nodes, and on any engine whose node vector is
  empty, \<^verbatim>\<open>executeWave\<close> returns 0.0 for every input and leaves the engine as it is; the
  division by the node count is not reached.
\<close>

theorem executeWave_empty:
  "executeWave base_input (initialize 0 e) = (0, initialize 0 e)
   \<and> executeWave base_input (e\<lparr>nodes := []\<rparr>) = (0, e\<lparr>nodes := []\<rparr>)"
  by (simp add: executeWave_def initialize_def)

text \<open>
  C4, as the specification states it: on four freshly initialised nodes one wave with
  input 1.0 leaves every accumulator at 0.1 and returns the average 0.1. The code does
  not: the statement fails on the engine initialised with four nodes.
\<close>

theorem executeWave_four_workers_counterexample:
  "\<not> (fst (executeWave 1 (initialize 4 new_UniversalNodeEngine)) = 0.1
      \<and> map (accumulator \<circ> worker \<circ> data)
            (nodes (snd (executeWave 1 (initialize 4 new_UniversalNodeEngine))))
          = [0.1, 0.1, 0.1, 0.1])"
  by (simp add: executeWave_def initialize_4 upt_4 execute_new_UniversalNode)

text \<open>
  C4, amended. A WORKER node computes \<open>result = input * gain\<close>, adds \<open>result * 0.01\<close> to
  its accumulator and returns \<open>result + accumulator\<close>; \<^verbatim>\<open>executeWave\<close> gives the node at
  index \<open>i\<close> the input \<open>base_input + i * 0.1\<close>. On four freshly initialised nodes (all
  WORKER, gain 1.0, accumulator 0) one call \<^verbatim>\<open>executeWave(1.0)\<close> therefore leaves the
  accumulators 0.01, 0.011, 0.012 and 0.013, the outputs 1.01, 1.111, 1.212 and 1.313, and
  returns their average 1.1615.
\<close>

theorem executeWave_four_workers:
  "execute input (n\<lparr>current_type := WORKER, data := Worker w\<rparr>) =
     (input * gain w + (accumulator w + input * gain w * 0.01),
      n\<lparr>current_type := WORKER,
        data := Worker (w\<lparr>accumulator := accumulator w + input * gain w * 0.01\<rparr>),
        node_value := input * gain w + (accumulator w + input * gain w * 0.01),
        execution_count := execution_count n + 1\<rparr>)
   \<and> map (current_type) (nodes (initialize 4 new_UniversalNodeEngine))
       = [WORKER, WORKER, WORKER, WORKER]
   \<and> map (gain \<circ> worker \<circ> data) (nodes (initialize 4 new_UniversalNodeEngine))
       = [1, 1, 1, 1]
   \<and> map (accumulator \<circ> worker \<circ> data)
         (nodes (snd (executeWave 1 (initialize 4 new_UniversalNodeEngine))))
       = [0.01, 0.011, 0.012, 0.013]
   \<and> map node_value (nodes (snd (executeWave 1 (initialize 4 new_UniversalNodeEngine))))
       = [1.01, 1.111, 1.212, 1.313]
   \<and> fst (executeWave 1 (initialize 4 new_UniversalNodeEngine)) = 1.1615"
proof -
  have a: "execute input (n\<lparr>current_type := WORKER, data := Worker w\<rparr>) =
     (input * gain w + (accumulator w + input * gain w * 0.01),
      n\<lparr>current_type := WORKER,
        data := Worker (w\<lparr>accumulator := accumulator w + input * gain w * 0.01\<rparr>),
        node_value := input * gain w + (accumulator w + input * gain w * 0.01),
        execution_count := execution_count n + 1\<rparr>)"
    by (simp add: execute_def Let_def)
  have b: "map (current_type) (nodes (initialize 4 new_UniversalNodeEngine))
             = [WORKER, WORKER, WORKER, WORKER]"
    by (simp add: initialize_4 new_UniversalNode_def)
  have c: "map (gain \<circ> worker \<circ> data) (nodes (initialize 4 new_UniversalNodeEngine))
             = [1, 1, 1, 1]"
    by (simp add: initialize_4 new_UniversalNode_def new_WorkerData_def)
  have d: "map (accumulator \<circ> worker \<circ> data)
             (nodes (snd (executeWave 1 (initialize 4 new_UniversalNodeEngine))))
           = [0.01, 0.011, 0.012, 0.013]"
    by (simp add: executeWave_def initialize_4 upt_4 execute_new_UniversalNode)
  have e: "map node_value (nodes (snd (executeWave 1 (initialize 4 new_UniversalNodeEngine))))
           = [1.01, 1.111, 1.212, 1.313]"
    by (simp add: executeWave_def initialize_4 upt_4 execute_new_UniversalNode)
  have f: "fst (executeWave 1 (initialize 4 new_UniversalNodeEngine)) = 1.1615"
    by (simp add: executeWave_def initialize_4 upt_4 execute_new_UniversalNode)
  from a b c d e f show ?thesis by blast
qed

section \<open>The PROCESSOR role\<close>




section \<open>The VECTOR role\<close>

lemma sin_consecutive:
  fixes a :: real
  shows "\<not> (sin a = 0 \<and> sin (a + 1 / 10) = 0)"
proof
  assume h: "sin a = 0 \<and> sin (a + 1 / 10) = 0"
  then have sa: "sin a = 0" and sb: "sin (a + 1 / 10) = 0" by simp_all
  have "(sin a)\<^sup>2 + (cos a)\<^sup>2 = 1" by (rule sin_cos_squared_add)
  with sa have c: "cos a \<noteq> 0" by auto
  have "(1::real) / 10 < pi" using pi_ge_two by linarith
  then have s: "0 < sin ((1::real) / 10)" by (intro sin_gt_zero) simp_all
  have "sin (a + 1 / 10) = sin a * cos (1 / 10) + cos a * sin (1 / 10)"
    by (rule sin_add)
  then have "0 = cos a * sin (1 / 10)" unfolding sb sa by simp
  with c s show False by simp
qed

text \<open>
  C10. After a switch into the VECTOR role from another role the embedding has eight
  components, and component \<open>i\<close> is \<^verbatim>\<open>sinf((x + y + z + i) * 0.1f)\<close> of the node's
  coordinates. It is not the zero vector the struct is constructed with (two neighbouring
  components cannot both vanish), and it is the same whatever the captured output \<open>v\<close>
  was. An \<^verbatim>\<open>execute\<close> that follows returns the dot product of this embedding with the
  input broadcast into eight components.
\<close>

theorem switchToType_VECTOR_embedding:
  assumes "current_type n \<noteq> VECTOR"
  shows "length (vec_data (vector (data (snd (switchToType VECTOR n))))) = 8
       \<and> (\<forall>i < 8. vec_data (vector (data (snd (switchToType VECTOR n)))) ! i
             = sinf (real_of_int (sint (node_x n) + sint (node_y n) + sint (node_z n) + int i) * 0.1))
       \<and> vec_data (vector (data (snd (switchToType VECTOR n)))) \<noteq> replicate 8 0
       \<and> data (snd (switchToType VECTOR (n\<lparr>node_value := v\<rparr>))) = data (snd (switchToType VECTOR n))
       \<and> fst (execute input (snd (switchToType VECTOR n)))
           = spec_dot (vec_data (vector (data (snd (switchToType VECTOR n))))) (spec_broadcast input)"
proof -
  let ?k = "sint (node_x n) + sint (node_y n) + sint (node_z n)"
  let ?f = "\<lambda>i. sinf (real_of_int (?k + int i) * 0.1)"
  let ?n' = "snd (switchToType VECTOR n)"
  have sw: "?n' = n\<lparr>current_type := VECTOR, switch_count := switch_count n + 1,
                     data := Vector \<lparr>vec_data = map ?f [0..<8], threshold = 0.8\<rparr>\<rparr>"
    using assms by (simp add: switchToType_def Let_def fold_vec_data new_VectorData_def)
  have vd: "vec_data (vector (data ?n')) = map ?f [0..<8]"
    by (simp add: sw)
  have l: "length (vec_data (vector (data ?n'))) = 8"
    by (simp add: vd)
  have c: "\<forall>i < 8. vec_data (vector (data ?n')) ! i = ?f i"
    by (simp add: vd)
  have nz: "vec_data (vector (data ?n')) \<noteq> replicate 8 0"
  proof
    assume z: "vec_data (vector (data ?n')) = replicate 8 0"
    have "vec_data (vector (data ?n')) ! 0 = ?f 0" "vec_data (vector (data ?n')) ! 1 = ?f 1"
      using c by simp_all
    with z have "?f 0 = 0" "?f 1 = 0" by simp_all
    then have "sin (real_of_int ?k / 10) = 0 \<and> sin (real_of_int ?k / 10 + 1 / 10) = 0"
      by (simp add: sinf_def add_divide_distrib)
    then show False using sin_consecutive by blast
  qed
  have iv: "data (snd (switchToType VECTOR (n\<lparr>node_value := v\<rparr>))) = data ?n'"
    using assms by (simp add: switchToType_def Let_def)
  have ex: "fst (execute input ?n')
              = spec_dot (vec_data (vector (data ?n'))) (spec_broadcast input)"
    unfolding vd
    by (simp add: sw execute_def Let_def spec_dot_def spec_broadcast_def upt_8 replicate_8)
  from l c nz iv ex show ?thesis by blast
qed

theorem switchToType_VECTOR_embedding_witness:
  "current_type (new_UniversalNode 5 5 0 0) \<noteq> VECTOR
   \<and> length (vec_data (vector (data (snd (switchToType VECTOR (new_UniversalNode 5 5 0 0)))))) = 8
   \<and> vec_data (vector (data (snd (switchToType VECTOR (new_UniversalNode 5 5 0 0))))) ! 3
       = sinf 0.8"
proof -
  have h: "current_type (new_UniversalNode 5 5 0 0) \<noteq> VECTOR"
    by (simp add: new_UniversalNode_def)
  have "vec_data (vector (data (snd (switchToType VECTOR (new_UniversalNode 5 5 0 0))))) ! 3
          = sinf (real_of_int (sint (node_x (new_UniversalNode 5 5 0 0))
                + sint (node_y (new_UniversalNode 5 5 0 0))
                + sint (node_z (new_UniversalNode 5 5 0 0)) + int 3) * 0.1)"
    using switchToType_VECTOR_embedding [OF h] by simp
  then show ?thesis
    using h switchToType_VECTOR_embedding [OF h]
    by (simp add: new_UniversalNode_def)
qed

section \<open>The signal-controlled node\<close>

text \<open>
  C5. \<^verbatim>\<open>processSignal\<close> chooses its mode from the control signal alone: above 0.5 it
  integrates, below -0.5 it differentiates, from 0 (excluded) up to 0.5 (included) it
  amplifies, and from -0.5 up to 0 (both included) it inverts. These four ranges cover
  every control signal. At exactly 0.5 the node amplifies and the integrator state is not
  touched. Each case also counts the operation and stores the output.
\<close>

theorem processSignal_mode_partition:
  "(0.5 < control \<longrightarrow>
      processSignal input control aux n =
        ((integrator_state n + input * 0.1) * feedback_gain n,
         n\<lparr>operation_count := operation_count n + 1,
           integrator_state := integrator_state n + input * 0.1,
           current_output := (integrator_state n + input * 0.1) * feedback_gain n\<rparr>))
   \<and> (control < - 0.5 \<longrightarrow>
      processSignal input control aux n =
        ((input - previous_input n) * feedback_gain n,
         n\<lparr>operation_count := operation_count n + 1,
           previous_input := input,
           current_output := (input - previous_input n) * feedback_gain n\<rparr>))
   \<and> (0 < control \<and> control \<le> 0.5 \<longrightarrow>
      processSignal input control aux n =
        (input * (1 + control) * feedback_gain n,
         n\<lparr>operation_count := operation_count n + 1,
           current_output := input * (1 + control) * feedback_gain n\<rparr>))
   \<and> (control \<le> 0 \<and> - 0.5 \<le> control \<longrightarrow>
      processSignal input control aux n =
        (- input * (1 + \<bar>control\<bar>) * feedback_gain n,
         n\<lparr>operation_count := operation_count n + 1,
           current_output := - input * (1 + \<bar>control\<bar>) * feedback_gain n\<rparr>))
   \<and> (0.5 < control \<or> control < - 0.5 \<or> 0 < control \<and> control \<le> 0.5
        \<or> control \<le> 0 \<and> - 0.5 \<le> control)
   \<and> processSignal input 0.5 aux n =
        (input * 1.5 * feedback_gain n,
         n\<lparr>operation_count := operation_count n + 1,
           current_output := input * 1.5 * feedback_gain n\<rparr>)"
proof -
  have cover: "0.5 < control \<or> control < - 0.5 \<or> 0 < control \<and> control \<le> 0.5
        \<or> control \<le> 0 \<and> - 0.5 \<le> control"
    by linarith
  then show ?thesis
    by (simp add: processSignal_def Let_def)
qed

theorem processSignal_mode_partition_witness:
  "((0.5::real) < 1 \<and> fst (processSignal 2 1 0 new_AnalogUniversalNode) = 0.2)
   \<and> ((- 1::real) < - 0.5 \<and> fst (processSignal 2 (- 1) 0 new_AnalogUniversalNode) = 2)
   \<and> ((0::real) < 0.25 \<and> (0.25::real) \<le> 0.5
        \<and> fst (processSignal 2 0.25 0 new_AnalogUniversalNode) = 2.5)
   \<and> ((- 0.25::real) \<le> 0 \<and> (- 0.5::real) \<le> - 0.25
        \<and> fst (processSignal 2 (- 0.25) 0 new_AnalogUniversalNode) = - 2.5)"
  using processSignal_mode_partition [of 1 2 0 new_AnalogUniversalNode]
        processSignal_mode_partition [of "- 1" 2 0 new_AnalogUniversalNode]
        processSignal_mode_partition [of "0.25" 2 0 new_AnalogUniversalNode]
        processSignal_mode_partition [of "- 0.25" 2 0 new_AnalogUniversalNode]
  by (simp add: new_AnalogUniversalNode_def)

end
